theory Spec2Isabelle
  imports Complex_Main "HOL-Library.Word"
begin

unbundle bit_operations_syntax

section \<open>JavaScript values\<close>

text \<open>
  A JavaScript string is a sequence of UTF-16 code units, modelled as a list of naturals.
  \<open>str\<close> turns an ASCII literal of the source into that form.
\<close>

type_synonym jsstring = "nat list"

definition str :: "string \<Rightarrow> jsstring" where
  "str s = map of_char s"

text \<open>
  The values the backend sends are whatever \<open>JSON.parse\<close> returns, and the widget reads
  them untyped; \<open>JUndefined\<close> is the value of a missing property. Objects are association
  lists, looked up from the left.
\<close>

datatype jsval =
    JUndefined
  | JNull
  | JBool bool
  | JNum rat
  | JStr jsstring
  | JArr "jsval list"
  | JObj "(jsstring \<times> jsval) list"

text \<open>\<open>if (v)\<close>, \<open>!v\<close>, \<open>v ? a : b\<close>: JavaScript truthiness.\<close>

fun truthy :: "jsval \<Rightarrow> bool" where
  "truthy JUndefined = False"
| "truthy JNull = False"
| "truthy (JBool b) = b"
| "truthy (JNum n) = (n \<noteq> 0)"
| "truthy (JStr s) = (s \<noteq> [])"
| "truthy (JArr xs) = True"
| "truthy (JObj kvs) = True"

text \<open>
  \<open>v?.k\<close>, and \<open>v.k\<close> where \<open>v\<close> is known not to be null or undefined: the property of an
  object, \<open>undefined\<close> on anything else (none of the keys the widget reads is a built-in
  property of a string, number, boolean or array).
\<close>

fun get :: "jsval \<Rightarrow> string \<Rightarrow> jsval" where
  "get (JObj kvs) k = (case map_of kvs (str k) of Some v \<Rightarrow> v | None \<Rightarrow> JUndefined)"
| "get v k = JUndefined"

text \<open>\<open>a || b\<close>\<close>

definition jor :: "jsval \<Rightarrow> jsval \<Rightarrow> jsval" where
  "jor a b = (if truthy a then a else b)"

text \<open>\<open>v === 'lit'\<close>\<close>

definition is_lit :: "jsval \<Rightarrow> string \<Rightarrow> bool" where
  "is_lit v l = (v = JStr (str l))"

text \<open>\<open>data.k\<close> throws a TypeError when \<open>data\<close> is null or undefined.\<close>

definition nullish :: "jsval \<Rightarrow> bool" where
  "nullish v = (v = JUndefined \<or> v = JNull)"


section \<open>The document and the session state\<close>

text \<open>
  A listing card built by \<open>renderAssistantMessage\<close>: the anchor's \<open>href\<close>, the image
  (source and alt text) when there is one, and the texts of the card.
\<close>

record card =
  card_href :: jsstring
  card_image :: "(jsstring \<times> jsstring) option"
  card_price :: jsstring
  card_address :: jsstring
  card_beds :: jsstring
  card_baths :: jsstring
  card_sqft :: jsstring

text \<open>A figure of the image carousel: the image's source and alt text, and the caption.\<close>

record figure =
  fig_src :: jsstring
  fig_alt :: jsstring
  fig_caption :: "jsstring option"

text \<open>
  The content of an assistant bubble: runs of markup text, listing cards, and (were one
  ever attached) an image carousel.
\<close>

datatype piece =
    HText jsstring
  | HCard card
  | HCarousel "figure list"

datatype role = User | Assistant

datatype content =
    TextContent jsval
  | InnerHTML jsval
  | Bubble "piece list"

text \<open>The lead form as \<open>renderLeadForm\<close> builds it.\<close>

record lead_form =
  lead_note :: jsval
  email_on_file :: jsval
  phone_on_file :: jsval
  contact_method :: jsstring

text \<open>The children of \<open>chatBody\<close>, in document order.\<close>

datatype node =
    Message role content
  | LeadFormNode lead_form
  | ChipsNode "jsstring list"
  | TypingNode

record lead_meta =
  meta_intent :: jsval
  meta_summary :: jsval
  meta_urgency :: jsval

text \<open>A request sent with \<open>fetch\<close>: the endpoint and the fields of the JSON body.\<close>

datatype request =
    ChatRequest "(string \<times> jsval) list"
  | LeadRequest "(string \<times> jsval) list"

text \<open>
  The variables of the widget's closure, the parts of the page they drive, the requests
  sent so far and the number of pending \<open>setTimeout(endChatSession, 800)\<close> callbacks.
  \<open>typingBubble\<close> is the dynamic bubble of \<open>app.js\<close> (hidden flag and text),
  \<open>typingIndicator_hidden\<close> the static indicator of the older build.
\<close>

record session =
  conversationId :: jsval
  leadFormVisible :: bool
  leadSubmitted :: bool
  pendingLeadMeta :: "lead_meta option"
  latestProfile :: jsval
  sessionRating :: "jsstring option"
  chatEnded :: bool
  chatBody :: "node list"
  chatInput_value :: jsstring
  chatInput_disabled :: bool
  sendButton_disabled :: bool
  chatInputArea_hidden :: bool
  ratingComponent_hidden :: bool
  ratingThankYou_hidden :: bool
  ratingInputs_disabled :: bool
  typingBubble :: "(bool \<times> jsval) option"
  typingIndicator_hidden :: bool
  chatWidget_open :: bool
  leadToast :: "jsstring option"
  requests :: "request list"
  endTimers :: nat

text \<open>
  \<open>makeConversationId\<close>: \<open>crypto.randomUUID()\<close> where the browser has it, else
  \<open>conv-\<close> followed by \<open>Math.random().toString(36).slice(2, 10)\<close>. The browser's answer
  is the input: the UUID, or the base-36 rendering of the random number.
\<close>

datatype id_source = RandomUUID jsstring | MathRandom jsstring

fun makeConversationId :: "id_source \<Rightarrow> jsval" where
  "makeConversationId (RandomUUID u) = JStr u"
| "makeConversationId (MathRandom r) = JStr (str ''conv-'' @ take 8 (drop 2 r))"

text \<open>The state after the script has run its top-level declarations.\<close>

definition initial_session :: "id_source \<Rightarrow> session" where
  "initial_session src =
     \<lparr> conversationId = makeConversationId src,
       leadFormVisible = False,
       leadSubmitted = False,
       pendingLeadMeta = None,
       latestProfile = JObj [],
       sessionRating = None,
       chatEnded = False,
       chatBody = [],
       chatInput_value = [],
       chatInput_disabled = False,
       sendButton_disabled = False,
       chatInputArea_hidden = False,
       ratingComponent_hidden = True,
       ratingThankYou_hidden = True,
       ratingInputs_disabled = False,
       typingBubble = None,
       typingIndicator_hidden = True,
       chatWidget_open = False,
       leadToast = None,
       requests = [],
       endTimers = 0 \<rparr>"

definition saveConversation :: "jsval \<Rightarrow> session \<Rightarrow> session" where
  "saveConversation cid s = s\<lparr>conversationId := cid\<rparr>"


section \<open>The lead gate\<close>

text \<open>\<open>chatBody.querySelector('.lead-form')\<close> followed by \<open>remove()\<close>: the first form goes.\<close>

fun remove_first_form :: "node list \<Rightarrow> node list" where
  "remove_first_form [] = []"
| "remove_first_form (LeadFormNode f # ns) = ns"
| "remove_first_form (n # ns) = n # remove_first_form ns"

definition updateProfilePanel :: "jsval \<Rightarrow> session \<Rightarrow> session" where
  "updateProfilePanel profile s = s\<lparr>latestProfile := jor profile (JObj [])\<rparr>"

text \<open>
  \<open>renderLeadForm(routing = {}, force = false, profile = latestProfile)\<close>. A parameter
  passed as \<open>undefined\<close> takes its default. \<open>profile\<close> is never null here: every caller
  passes a truthy value or \<open>latestProfile\<close>, which is always an object or a truthy value.
\<close>

definition renderLeadForm :: "jsval \<Rightarrow> bool \<Rightarrow> jsval \<Rightarrow> session \<Rightarrow> session" where
  "renderLeadForm routing0 force profile0 s =
     (if leadFormVisible s \<and> \<not> force then s
      else
        let routing = (if routing0 = JUndefined then JObj [] else routing0);
            profile = (if profile0 = JUndefined then latestProfile s else profile0);
            summaryText = jor (get routing ''summary'')
               (jor (get profile ''summary'')
                  (JStr (str ''To confirm availability we just need the best way to reach you.'')));
            meta = \<lparr> meta_intent = jor (get routing ''intent'')
                                      (jor (get profile ''intent'') (JStr (str ''other''))),
                     meta_summary = summaryText,
                     meta_urgency = jor (get routing ''urgency'')
                                      (jor (get profile ''urgency'') (JStr (str ''unknown''))) \<rparr>;
            emailOnFile = jor (get profile ''contact_email'') (JStr []);
            phoneOnFile = jor (get profile ''contact_phone'') (JStr []);
            defaultContact = (if truthy phoneOnFile then str ''text'' else str ''email'');
            wrapper = \<lparr> lead_note = summaryText,
                        email_on_file = emailOnFile,
                        phone_on_file = phoneOnFile,
                        contact_method = defaultContact \<rparr>
        in s\<lparr> chatBody := remove_first_form (chatBody s) @ [LeadFormNode wrapper],
               pendingLeadMeta := Some meta,
               leadFormVisible := True \<rparr>)"

definition handleRouting :: "jsval \<Rightarrow> jsval \<Rightarrow> session \<Rightarrow> session" where
  "handleRouting routing profile s =
     (let s1 = (if truthy profile then updateProfilePanel profile s else s) in
      if \<not> truthy routing then s1
      else
        let shouldCard = (is_lit (get routing ''lead_capture'') ''yes''
               \<or> ((is_lit (get profile ''stage'') ''contact''
                     \<or> is_lit (get profile ''stage'') ''schedule'') \<and> \<not> leadSubmitted s1));
            contactOnFile = jor (get profile ''contact_email'') (get profile ''contact_phone'');
            highIntent = (is_lit (get routing ''intent'') ''book''
               \<or> is_lit (get routing ''intent'') ''buy''
               \<or> is_lit (get routing ''intent'') ''pricing'');
            hasProductOrDate = jor (get profile ''product_name'') (get profile ''requested_date'')
        in if (shouldCard \<or> highIntent \<or> truthy hasProductOrDate)
              \<and> \<not> leadFormVisible s1 \<and> \<not> leadSubmitted s1 \<and> \<not> truthy contactOnFile
           then renderLeadForm routing False (jor profile (latestProfile s1)) s1
           else s1)"

text \<open>
  The click handler of the form's "Remind me later" button:
  \<open>wrapper.remove(); leadFormVisible = false\<close>. The form that carries the button is the
  only one in \<open>chatBody\<close>, since \<open>renderLeadForm\<close> removes the one before it.
\<close>

definition leadDismiss :: "session \<Rightarrow> session" where
  "leadDismiss s = s\<lparr> chatBody := remove_first_form (chatBody s), leadFormVisible := False \<rparr>"

fun is_form :: "node \<Rightarrow> bool" where
  "is_form (LeadFormNode f) = True"
| "is_form n = False"


section \<open>The browser and the page's configuration\<close>

text \<open>
  What the widget takes from the browser: \<open>JSON.parse\<close> (\<open>None\<close> when it throws a
  SyntaxError) and \<open>Number(s).toLocaleString()\<close> in the browser's locale.
\<close>

record platform =
  JSON_parse :: "jsstring \<Rightarrow> jsval option"
  Number_toLocaleString :: "jsstring \<Rightarrow> jsstring"

text \<open>\<open>window.RM_BUSINESS_ID\<close> and \<open>window.RM_SHEETS_ID\<close>, trimmed.\<close>

record config =
  BUSINESS_ID :: jsstring
  SHEETS_ID :: jsstring


section \<open>The message renderer\<close>

text \<open>
  The characters that \<open>\s\<close> matches in a regular expression and that \<open>trim()\<close> strips:
  ECMAScript's WhiteSpace and LineTerminator.
\<close>

definition is_space :: "nat \<Rightarrow> bool" where
  "is_space c = (c \<in> set [0x9, 0xA, 0xB, 0xC, 0xD, 0x20, 0xA0, 0x1680, 0x2028, 0x2029,
                            0x202F, 0x205F, 0x3000, 0xFEFF]
                 \<or> (0x2000 \<le> c \<and> c \<le> 0x200A))"

definition trim :: "jsstring \<Rightarrow> jsstring" where
  "trim s = rev (dropWhile is_space (rev (dropWhile is_space s)))"

text \<open>\<open>\w\<close>\<close>

definition is_word :: "nat \<Rightarrow> bool" where
  "is_word c = ((48 \<le> c \<and> c \<le> 57) \<or> (65 \<le> c \<and> c \<le> 90) \<or> c = 95 \<or> (97 \<le> c \<and> c \<le> 122))"

text \<open>
  Matching under the \<open>i\<close> flag: both characters are canonicalised to upper case. The
  patterns are ASCII, and a character outside ASCII never canonicalises into ASCII, so
  folding the ASCII letters is enough.
\<close>

definition fold_case :: "nat \<Rightarrow> nat" where
  "fold_case c = (if 97 \<le> c \<and> c \<le> 122 then c - 32 else c)"

text \<open>A literal of the pattern at the head of the input: what is left after it.\<close>

fun strip_ci :: "jsstring \<Rightarrow> jsstring \<Rightarrow> jsstring option" where
  "strip_ci [] s = Some s"
| "strip_ci (p # ps) [] = None"
| "strip_ci (p # ps) (c # cs) = (if fold_case p = fold_case c then strip_ci ps cs else None)"

text \<open>
  The optional groups \<open>(?:\s+src="([^"]+)")?\<close> and \<open>(?:\s+alt="([^"]*)")?\<close> of the image
  pattern: the capture (if the group takes part) and the input after the group. Character
  34 is the double quote. When a group has matched, skipping it instead cannot lead to a
  match (the next thing the pattern wants is \<open>alt\<close> or \<open>>\<close> after white space), so the
  greedy choice is the only one.
\<close>

definition opt_attr :: "string \<Rightarrow> bool \<Rightarrow> jsstring \<Rightarrow> jsstring option \<times> jsstring" where
  "opt_attr name nonempty s =
     (if takeWhile is_space s = [] then (None, s)
      else case strip_ci (str name @ [61, 34]) (dropWhile is_space s) of
             None \<Rightarrow> (None, s)
           | Some s2 \<Rightarrow>
               let v = takeWhile (\<lambda>c. c \<noteq> 34) s2; s3 = dropWhile (\<lambda>c. c \<noteq> 34) s2
               in if s3 = [] \<or> (nonempty \<and> v = []) then (None, s) else (Some v, tl s3))"

text \<open>
  \<open>(.*?)<\/image\1>\<close> under the \<open>s\<close> flag: the shortest inner text followed by the closing
  tag with the same digit.
\<close>

fun find_close :: "nat \<Rightarrow> jsstring \<Rightarrow> (jsstring \<times> jsstring) option" where
  "find_close d [] = None"
| "find_close d (c # cs) =
     (case strip_ci (str ''</image'' @ [d] @ str ''>'') (c # cs) of
        Some rest \<Rightarrow> Some ([], rest)
      | None \<Rightarrow> (case find_close d cs of
                   None \<Rightarrow> None
                 | Some (inner, rest) \<Rightarrow> Some (c # inner, rest)))"

text \<open>A match of the image pattern: the matched text and the three captures after the digit.\<close>

record img_match =
  im_source :: jsstring
  im_src :: "jsstring option"
  im_alt :: "jsstring option"
  im_inner :: jsstring

text \<open>
  \<open>/<image([1-5])(?:\s+src="([^"]+)")?(?:\s+alt="([^"]*)")?\s*>(.*?)<\/image\1>/gis\<close>
  tried at the head of the input: the match and the input after it.
\<close>

definition match_img :: "jsstring \<Rightarrow> (img_match \<times> jsstring) option" where
  "match_img s =
     (case strip_ci (str ''<image'') s of
        None \<Rightarrow> None
      | Some s1 \<Rightarrow>
         (case s1 of
            [] \<Rightarrow> None
          | d # s2 \<Rightarrow>
              if \<not> (49 \<le> d \<and> d \<le> 53) then None
              else
                let (srcAttr, s3) = opt_attr ''src'' True s2;
                    (altAttr, s4) = opt_attr ''alt'' False s3
                in (case dropWhile is_space s4 of
                      [] \<Rightarrow> None
                    | g # s6 \<Rightarrow>
                        if g \<noteq> 62 then None
                        else (case find_close d s6 of
                                None \<Rightarrow> None
                              | Some (inner, rest) \<Rightarrow>
                                  Some (\<lparr> im_source = take (length s - length rest) s,
                                          im_src = srcAttr, im_alt = altAttr,
                                          im_inner = inner \<rparr>, rest)))))"

lemma strip_ci_length: "strip_ci p s = Some r \<Longrightarrow> length r + length p = length s"
  by (induction p s rule: strip_ci.induct) (auto split: if_splits)

lemma opt_attr_length:
  assumes "opt_attr n b s = (a, r)"
  shows "length r \<le> length s"
proof (cases "r = s")
  case True
  then show ?thesis by simp
next
  case False
  with assms obtain s2 where
    1: "strip_ci (str n @ [61, 34]) (dropWhile is_space s) = Some s2"
    and 2: "r = tl (dropWhile (\<lambda>c. c \<noteq> 34) s2)"
    by (auto simp: opt_attr_def Let_def split: if_splits option.splits)
  have "length r \<le> length (dropWhile (\<lambda>c. c \<noteq> 34) s2)" using 2 by simp
  also have "\<dots> \<le> length s2" by (rule length_dropWhile_le)
  also have "\<dots> \<le> length (dropWhile is_space s)" using strip_ci_length[OF 1] by simp
  also have "\<dots> \<le> length s" by (rule length_dropWhile_le)
  finally show ?thesis .
qed

lemma find_close_length: "find_close d s = Some (i, r) \<Longrightarrow> length r < length s"
  by (induction s arbitrary: i r) (auto split: option.splits dest!: strip_ci_length)

lemma match_img_length:
  assumes "match_img s = Some (m, r)"
  shows "length r < length s"
proof -
  from assms obtain s1 d s2 a s3 b s4 g s6 inner where
    1: "strip_ci (str ''<image'') s = Some s1" and 2: "s1 = d # s2"
    and 3: "opt_attr ''src'' True s2 = (a, s3)" and 4: "opt_attr ''alt'' False s3 = (b, s4)"
    and 5: "dropWhile is_space s4 = g # s6" and 6: "find_close d s6 = Some (inner, r)"
    by (auto simp: match_img_def Let_def split: option.splits list.splits if_splits prod.splits)
  have "length r < length s6" using 6 by (rule find_close_length)
  also have "length s6 < length (dropWhile is_space s4)" using 5 by simp
  also have "\<dots> \<le> length s4" by (rule length_dropWhile_le)
  also have "\<dots> \<le> length s3" using 4 by (rule opt_attr_length)
  also have "\<dots> \<le> length s2" using 3 by (rule opt_attr_length)
  also have "\<dots> \<le> length s" using strip_ci_length[OF 1] 2 by simp
  finally show ?thesis .
qed

function scan_img :: "jsstring \<Rightarrow> (img_match + nat) list" where
  "scan_img [] = []"
| "scan_img (c # cs) =
     (case match_img (c # cs) of
        Some (m, rest) \<Rightarrow> Inl m # scan_img rest
      | None \<Rightarrow> Inr c # scan_img cs)"
  by pat_completeness auto
termination
  by (relation "measure length") (auto dest: match_img_length)


text \<open>
  The replacement callback of the image pattern: \<open>(srcAttr || inner || '').trim()\<close>, the
  same for \<open>alt\<close>, and \<open>if (src) images.push({ src, alt })\<close>. A group that took no part
  is \<open>undefined\<close>, an empty capture is falsy as well.
\<close>

record image =
  img_src :: jsstring
  img_alt :: jsstring

definition capture_or :: "jsstring option \<Rightarrow> jsstring \<Rightarrow> jsstring" where
  "capture_or a inner = (case a of Some v \<Rightarrow> if v \<noteq> [] then v else inner | None \<Rightarrow> inner)"

definition image_of :: "img_match \<Rightarrow> image option" where
  "image_of m =
     (let src = trim (capture_or (im_src m) (im_inner m));
          alt = trim (capture_or (im_alt m) (im_inner m))
      in if src \<noteq> [] then Some \<lparr> img_src = src, img_alt = alt \<rparr> else None)"

text \<open>The \<open>images\<close> array and the text after the first \<open>replace\<close> (every match becomes \<open>''\<close>).\<close>

definition collect_images :: "jsstring \<Rightarrow> image list" where
  "collect_images text =
     List.map_filter (\<lambda>seg. case seg of Inl m \<Rightarrow> image_of m | Inr c \<Rightarrow> None) (scan_img text)"

definition strip_images :: "jsstring \<Rightarrow> jsstring" where
  "strip_images text =
     concat (map (\<lambda>seg. case seg of Inl m \<Rightarrow> [] | Inr c \<Rightarrow> [c]) (scan_img text))"

text \<open>
  \<open>buildCarousel(images = [])\<close>: a figure for each of the first five images, with the
  caption when the image has alt text. The index is below 5, so \<open>idx + 1\<close> is one digit.
  The \<open>onerror\<close> fallback acts when the browser loads the image and is not modelled.
\<close>

definition buildCarousel :: "image list \<Rightarrow> piece" where
  "buildCarousel images =
     HCarousel (map (\<lambda>(idx, img).
                   \<lparr> fig_src = img_src img,
                     fig_alt = (if img_alt img \<noteq> [] then img_alt img
                                else str ''Listing image '' @ [48 + (idx + 1)]),
                     fig_caption = (if img_alt img \<noteq> [] then Some (img_alt img) else None) \<rparr>)
                (enumerate 0 (take 5 images)))"

text \<open>
  \<open>/<listing-card\s+([^>]+)><\/listing-card>/gis\<close> at the head of the input: the attribute
  string and the input after the match. Character 62 is \<open>>\<close>. The text up to the first
  \<open>>\<close> must start with white space and hold one more character; \<open>\s+\<close> takes the leading
  white space, giving back its last character when nothing else is left for \<open>[^>]+\<close>.
\<close>

definition match_card :: "jsstring \<Rightarrow> (jsstring \<times> jsstring) option" where
  "match_card s =
     (case strip_ci (str ''<listing-card'') s of
        None \<Rightarrow> None
      | Some s1 \<Rightarrow>
          let span = takeWhile (\<lambda>c. c \<noteq> 62) s1;
              after = dropWhile (\<lambda>c. c \<noteq> 62) s1;
              ws = takeWhile is_space span
          in if ws = [] \<or> length span < 2 then None
             else (case strip_ci (str ''></listing-card>'') after of
                     None \<Rightarrow> None
                   | Some rest \<Rightarrow>
                       Some (if length ws = length span then [last span]
                             else dropWhile is_space span, rest)))"

text \<open>
  \<open>/(\w+)="([^"]*)"/g\<close> at the head of the input, and the \<open>exec\<close> loop that fills
  \<open>attrs\<close>: the pairs in the order they are assigned.
\<close>

definition match_attr :: "jsstring \<Rightarrow> ((jsstring \<times> jsstring) \<times> jsstring) option" where
  "match_attr s =
     (if takeWhile is_word s = [] then None
      else case strip_ci [61, 34] (dropWhile is_word s) of
             None \<Rightarrow> None
           | Some s2 \<Rightarrow>
               let v = takeWhile (\<lambda>c. c \<noteq> 34) s2; s3 = dropWhile (\<lambda>c. c \<noteq> 34) s2
               in if s3 = [] then None else Some ((takeWhile is_word s, v), tl s3))"

lemma match_attr_length:
  assumes "match_attr s = Some (kv, r)"
  shows "length r < length s"
proof -
  from assms obtain s2 where
    1: "strip_ci [61, 34] (dropWhile is_word s) = Some s2"
    and 2: "dropWhile (\<lambda>c. c \<noteq> 34) s2 \<noteq> []" and 3: "r = tl (dropWhile (\<lambda>c. c \<noteq> 34) s2)"
    by (auto simp: match_attr_def Let_def split: option.splits if_splits)
  have "length r < length (dropWhile (\<lambda>c. c \<noteq> 34) s2)" using 2 3
    by (cases "dropWhile (\<lambda>c. c \<noteq> 34) s2") simp_all
  also have "\<dots> \<le> length s2" by (rule length_dropWhile_le)
  also have "\<dots> \<le> length (dropWhile is_word s)" using strip_ci_length[OF 1] by simp
  also have "\<dots> \<le> length s" by (rule length_dropWhile_le)
  finally show ?thesis .
qed

function scan_attrs :: "jsstring \<Rightarrow> (jsstring \<times> jsstring) list" where
  "scan_attrs [] = []"
| "scan_attrs (c # cs) =
     (case match_attr (c # cs) of
        Some (kv, rest) \<Rightarrow> kv # scan_attrs rest
      | None \<Rightarrow> scan_attrs cs)"
  by pat_completeness auto
termination
  by (relation "measure length") (auto dest: match_attr_length)

text \<open>\<open>attrs.k\<close>: the last value assigned to the key, \<open>undefined\<close> (\<open>None\<close>) without one.\<close>

definition attr :: "(jsstring \<times> jsstring) list \<Rightarrow> string \<Rightarrow> jsstring option" where
  "attr attrs k = map_of (rev attrs) (str k)"

text \<open>\<open>attrs.k || 'default'\<close>\<close>

definition or_default :: "jsstring option \<Rightarrow> jsstring \<Rightarrow> jsstring" where
  "or_default a d = (case a of Some v \<Rightarrow> if v \<noteq> [] then v else d | None \<Rightarrow> d)"

text \<open>
  \<open>attrs.price ? (attrs.price.startsWith('$') ? attrs.price
     : `$${Number(attrs.price).toLocaleString()}`) : 'Contact for Price'\<close>. Character 36 is
  the dollar sign.
\<close>

definition priceFormatted :: "platform \<Rightarrow> jsstring option \<Rightarrow> jsstring" where
  "priceFormatted P price =
     (case price of
        None \<Rightarrow> str ''Contact for Price''
      | Some p \<Rightarrow>
          if p = [] then str ''Contact for Price''
          else if take 1 p = [36] then p
          else 36 # Number_toLocaleString P p)"

text \<open>
  The card element. Its markup is kept as a value: the text the browser would give back
  for \<open>card.outerHTML\<close> is not modelled. The image's alt text is \<open>attrs.address\<close>
  interpolated as it is, so \<open>undefined\<close> when the address is missing.
\<close>

definition make_card :: "platform \<Rightarrow> (jsstring \<times> jsstring) list \<Rightarrow> card" where
  "make_card P attrs =
     \<lparr> card_href = or_default (attr attrs ''link'') (str ''#''),
       card_image = (case attr attrs ''image'' of
                       None \<Rightarrow> None
                     | Some i \<Rightarrow>
                         if i = [] then None
                         else Some (i, case attr attrs ''address'' of
                                         None \<Rightarrow> str ''undefined'' | Some a \<Rightarrow> a)),
       card_price = priceFormatted P (attr attrs ''price''),
       card_address = or_default (attr attrs ''address'') (str ''Address Unavailable''),
       card_beds = or_default (attr attrs ''beds'') (str ''?''),
       card_baths = or_default (attr attrs ''baths'') (str ''?''),
       card_sqft = or_default (attr attrs ''sqft'') (str ''?'') \<rparr>"

lemma match_card_length:
  assumes "match_card s = Some (a, r)"
  shows "length r < length s"
proof -
  from assms obtain s1 where
    1: "strip_ci (str ''<listing-card'') s = Some s1"
    and 2: "strip_ci (str ''></listing-card>'') (dropWhile (\<lambda>c. c \<noteq> 62) s1) = Some r"
    by (auto simp: match_card_def Let_def split: option.splits if_splits)
  have "length r < length (dropWhile (\<lambda>c. c \<noteq> 62) s1)"
    using strip_ci_length[OF 2] by (simp add: str_def)
  also have "\<dots> \<le> length s1" by (rule length_dropWhile_le)
  also have "\<dots> \<le> length s" using strip_ci_length[OF 1] by simp
  finally show ?thesis .
qed

text \<open>
  The second \<open>replace\<close>: the matches of the card pattern (their attribute strings) and
  the characters between them, in order.
\<close>

function scan_card :: "jsstring \<Rightarrow> (jsstring + nat) list" where
  "scan_card [] = []"
| "scan_card (c # cs) =
     (case match_card (c # cs) of
        Some (attrString, rest) \<Rightarrow> Inl attrString # scan_card rest
      | None \<Rightarrow> Inr c # scan_card cs)"
  by pat_completeness auto
termination
  by (relation "measure length") (auto dest: match_card_length)

text \<open>
  Every match becomes its card, the characters between matches stay, gathered into runs
  of text.
\<close>

fun add_char :: "nat \<Rightarrow> piece list \<Rightarrow> piece list" where
  "add_char c (HText t # ps) = HText (c # t) # ps"
| "add_char c ps = HText [c] # ps"

fun card_pieces :: "platform \<Rightarrow> (jsstring + nat) list \<Rightarrow> piece list" where
  "card_pieces P [] = []"
| "card_pieces P (Inl attrString # segs) =
     HCard (make_card P (scan_attrs attrString)) # card_pieces P segs"
| "card_pieces P (Inr c # segs) = add_char c (card_pieces P segs)"

text \<open>
  \<open>cleaned.trim()\<close> on the pieces: white space goes from both ends of the text; a card's
  markup starts with \<open><a\<close> and ends with \<open></a>\<close>, so trimming stops at a card.
\<close>

fun ltrim_pieces :: "piece list \<Rightarrow> piece list" where
  "ltrim_pieces (HText t # ps) =
     (if dropWhile is_space t = [] then ltrim_pieces ps else HText (dropWhile is_space t) # ps)"
| "ltrim_pieces ps = ps"

fun rev_piece :: "piece \<Rightarrow> piece" where
  "rev_piece (HText t) = HText (rev t)"
| "rev_piece p = p"

definition trim_pieces :: "piece list \<Rightarrow> piece list" where
  "trim_pieces ps =
     map rev_piece (rev (ltrim_pieces (map rev_piece (rev (ltrim_pieces ps)))))"

text \<open>\<open>replace(/\n/g, '<br>')\<close> on the text of the bubble.\<close>

fun br_piece :: "piece \<Rightarrow> piece" where
  "br_piece (HText t) = HText (concat (map (\<lambda>c. if c = 10 then str ''<br>'' else [c]) t))"
| "br_piece p = p"

text \<open>
  \<open>let cleaned = text || ''\<close> followed by \<open>cleaned.replace\<close>: a falsy reply is the empty
  text; a truthy reply that is not a string has no \<open>replace\<close>, and the call throws a
  TypeError (\<open>None\<close>).
\<close>

definition reply_text :: "jsval \<Rightarrow> jsstring option" where
  "reply_text text =
     (if \<not> truthy text then Some []
      else case text of JStr t \<Rightarrow> Some t | _ \<Rightarrow> None)"

text \<open>
  \<open>renderAssistantMessage(text, options)\<close>: the content of the bubble it returns
  (\<open>html\<close> is \<open>options.html\<close>). The \<open>images\<close> array is filled and then dropped: the
  source says "Removed buildCarousel(images) to avoid duplicates with cards".
\<close>

definition renderAssistantMessage :: "platform \<Rightarrow> jsval \<Rightarrow> bool \<Rightarrow> piece list option" where
  "renderAssistantMessage P text html =
     (case reply_text text of
        None \<Rightarrow> None
      | Some t \<Rightarrow>
          let images = collect_images t;
              cleaned = card_pieces P (scan_card (strip_images t))
          in Some (if html then trim_pieces cleaned else map br_piece (trim_pieces cleaned)))"

text \<open>The figures and the cards that a bubble shows.\<close>

fun piece_figures :: "piece \<Rightarrow> figure list" where
  "piece_figures (HCarousel figs) = figs"
| "piece_figures p = []"

definition rendered_images :: "piece list \<Rightarrow> figure list" where
  "rendered_images ps = concat (map piece_figures ps)"

fun piece_cards :: "piece \<Rightarrow> card list" where
  "piece_cards (HCard c) = [c]"
| "piece_cards p = []"

definition rendered_cards :: "piece list \<Rightarrow> card list" where
  "rendered_cards ps = concat (map piece_cards ps)"

text \<open>
  An \<open>en-US\<close> browser, for the examples: \<open>Number(s).toLocaleString()\<close> groups the digits of
  a decimal integer in threes. The function stands for the browser's on decimal integers
  without sign or leading zero and below \<open>2^53\<close>, where the number is exact.
\<close>

fun commas :: "jsstring \<Rightarrow> jsstring" where
  "commas (a # b # c # d # ds) = a # b # c # 44 # commas (d # ds)"
| "commas ds = ds"

definition en_US_toLocaleString :: "jsstring \<Rightarrow> jsstring" where
  "en_US_toLocaleString s = rev (commas (rev s))"


section \<open>The transport decoder\<close>

text \<open>
  \<open>new TextDecoder()\<close> and \<open>decoder.decode(value, { stream: true })\<close>: the UTF-8 decoder
  of the Encoding standard. It reads one byte at a time and keeps the code point under
  construction between calls, so a character split over two reads is put together.
  A malformed sequence gives U+FFFD; a byte order mark at the start of the stream is
  dropped; a code point above U+FFFF becomes a surrogate pair. With \<open>stream: true\<close> on
  every call the decoder is never flushed.
\<close>

type_synonym byte = "8 word"

record utf8_decoder =
  code_point :: nat
  bytes_seen :: nat
  bytes_needed :: nat
  lower_boundary :: byte
  upper_boundary :: byte
  bom_seen :: bool

definition new_TextDecoder :: utf8_decoder where
  "new_TextDecoder =
     \<lparr> code_point = 0, bytes_seen = 0, bytes_needed = 0,
       lower_boundary = 0x80, upper_boundary = 0xBF, bom_seen = False \<rparr>"

text \<open>A byte met when no bytes are needed: the new state and the code points emitted.\<close>

definition utf8_lead :: "utf8_decoder \<Rightarrow> byte \<Rightarrow> utf8_decoder \<times> nat list" where
  "utf8_lead d b =
     (if b \<le> 0x7F then (d, [unat b])
      else if 0xC2 \<le> b \<and> b \<le> 0xDF then
        (d\<lparr> bytes_needed := 1, code_point := unat (b AND 0x1F) \<rparr>, [])
      else if 0xE0 \<le> b \<and> b \<le> 0xEF then
        (d\<lparr> lower_boundary := (if b = 0xE0 then 0xA0 else lower_boundary d),
            upper_boundary := (if b = 0xED then 0x9F else upper_boundary d),
            bytes_needed := 2, code_point := unat (b AND 0xF) \<rparr>, [])
      else if 0xF0 \<le> b \<and> b \<le> 0xF4 then
        (d\<lparr> lower_boundary := (if b = 0xF0 then 0x90 else lower_boundary d),
            upper_boundary := (if b = 0xF4 then 0x8F else upper_boundary d),
            bytes_needed := 3, code_point := unat (b AND 0x7) \<rparr>, [])
      else (d, [0xFFFD]))"

text \<open>
  The decoder's handler. A byte outside the boundaries ends the sequence with an error
  and is then read again as the first byte of a new one.
\<close>

definition utf8_handler :: "utf8_decoder \<Rightarrow> byte \<Rightarrow> utf8_decoder \<times> nat list" where
  "utf8_handler d b =
     (if bytes_needed d = 0 then utf8_lead d b
      else if \<not> (lower_boundary d \<le> b \<and> b \<le> upper_boundary d) then
        (let (d', out) = utf8_lead (d\<lparr> code_point := 0, bytes_needed := 0, bytes_seen := 0,
                                         lower_boundary := 0x80, upper_boundary := 0xBF \<rparr>) b
         in (d', 0xFFFD # out))
      else
        (let cp = code_point d * 64 + unat (b AND 0x3F) in
         if bytes_seen d + 1 \<noteq> bytes_needed d then
           (d\<lparr> lower_boundary := 0x80, upper_boundary := 0xBF,
               code_point := cp, bytes_seen := bytes_seen d + 1 \<rparr>, [])
         else
           (d\<lparr> lower_boundary := 0x80, upper_boundary := 0xBF,
               code_point := 0, bytes_needed := 0, bytes_seen := 0 \<rparr>, [cp])))"

text \<open>The code units of a code point.\<close>

definition utf16 :: "nat \<Rightarrow> jsstring" where
  "utf16 cp =
     (if cp < 0x10000 then [cp]
      else [0xD800 + (cp - 0x10000) div 0x400, 0xDC00 + (cp - 0x10000) mod 0x400])"

text \<open>Output of the code points: the first one of the stream is dropped when it is U+FEFF.\<close>

fun emit :: "utf8_decoder \<Rightarrow> nat list \<Rightarrow> utf8_decoder \<times> jsstring" where
  "emit d [] = (d, [])"
| "emit d (cp # cps) =
     (let (d', out) = emit (d\<lparr> bom_seen := True \<rparr>) cps
      in (d', (if \<not> bom_seen d \<and> cp = 0xFEFF then [] else utf16 cp) @ out))"

definition decode_byte :: "utf8_decoder \<Rightarrow> byte \<Rightarrow> utf8_decoder \<times> jsstring" where
  "decode_byte d b = (let (d', cps) = utf8_handler d b in emit d' cps)"

text \<open>\<open>decoder.decode(value, { stream: true })\<close>: the decoder afterwards and the text.\<close>

fun decode :: "utf8_decoder \<Rightarrow> byte list \<Rightarrow> utf8_decoder \<times> jsstring" where
  "decode d [] = (d, [])"
| "decode d (b # bs) =
     (let (d1, out1) = decode_byte d b;
          (d2, out2) = decode d1 bs
      in (d2, out1 @ out2))"

text \<open>\<open>buffer.split('\n')\<close>: never empty; the last element is the text after the last newline.\<close>

fun split_nl :: "jsstring \<Rightarrow> jsstring list" where
  "split_nl [] = [[]]"
| "split_nl (c # cs) =
     (if c = 10 then [] # split_nl cs
      else (case split_nl cs of
              [] \<Rightarrow> [[c]]
            | l # ls \<Rightarrow> (c # l) # ls))"

text \<open>
  The body of \<open>for (const line of lines)\<close>: a line that is blank after \<open>trim()\<close> is
  skipped; a line that \<open>JSON.parse\<close> rejects is caught and logged; the parsed event goes to
  the dispatch \<open>h\<close>, which returns the state it leaves behind (what it did before an
  exception of its own is caught by the same \<open>catch\<close>).
\<close>

definition process_line :: "platform \<Rightarrow> (jsval \<Rightarrow> 'st \<Rightarrow> 'st) \<Rightarrow> jsstring \<Rightarrow> 'st \<Rightarrow> 'st" where
  "process_line P h line st =
     (if trim line = [] then st
      else case JSON_parse P line of
             None \<Rightarrow> st
           | Some event \<Rightarrow> h event st)"

text \<open>
  The \<open>while (true)\<close> loop over the reads that deliver a chunk, from the decoder, the
  buffer and the state at hand:
  \<open>buffer += decoder.decode(value, { stream: true }); lines = buffer.split('\n');
  buffer = lines.pop(); for (const line of lines) ...\<close>
\<close>

fun read_loop ::
  "platform \<Rightarrow> (jsval \<Rightarrow> 'st \<Rightarrow> 'st) \<Rightarrow> byte list list
     \<Rightarrow> utf8_decoder \<times> jsstring \<times> 'st \<Rightarrow> utf8_decoder \<times> jsstring \<times> 'st" where
  "read_loop P h [] x = x"
| "read_loop P h (v # reads) (d, buffer, st) =
     (let (d', txt) = decode d v;
          lines = split_nl (buffer @ txt)
      in read_loop P h reads (d', last lines, fold (process_line P h) (butlast lines) st))"

text \<open>
  The events that the loop hands to its dispatch, in order: the loop run with a dispatch
  that only records the event.
\<close>

definition decoder_events :: "platform \<Rightarrow> byte list list \<Rightarrow> jsval list" where
  "decoder_events P chunks =
     snd (snd (read_loop P (\<lambda>event evs. evs @ [event]) chunks (new_TextDecoder, [], [])))"

text \<open>
  The complete lines of a stream: all the text of the reads, cut at the newlines,
  without what follows the last newline.
\<close>

definition stream_text :: "byte list list \<Rightarrow> jsstring" where
  "stream_text chunks = snd (decode new_TextDecoder (concat chunks))"

definition stream_lines :: "byte list list \<Rightarrow> jsstring list" where
  "stream_lines chunks = butlast (split_nl (stream_text chunks))"

text \<open>The events of a list of lines: the body of the line loop with the recording dispatch.\<close>

definition events_of_lines :: "platform \<Rightarrow> jsstring list \<Rightarrow> jsval list" where
  "events_of_lines P ls = fold (process_line P (\<lambda>event evs. evs @ [event])) ls []"


text \<open>Bytes of an ASCII literal, for the examples.\<close>

definition ascii :: "string \<Rightarrow> byte list" where
  "ascii s = map (\<lambda>c. of_nat (of_char c)) s"


section \<open>The session controller\<close>

text \<open>\<open>chatBody.appendChild(node)\<close> for a new node.\<close>

definition append_node :: "node \<Rightarrow> session \<Rightarrow> session" where
  "append_node n s = s\<lparr> chatBody := chatBody s @ [n] \<rparr>"

text \<open>
  \<open>appendMessage(role, text, options)\<close> of \<open>app.js\<close>. An assistant message goes through
  \<open>renderAssistantMessage\<close> and throws when that throws (\<open>None\<close>).
\<close>

definition appendMessage :: "platform \<Rightarrow> role \<Rightarrow> jsval \<Rightarrow> bool \<Rightarrow> session \<Rightarrow> session option" where
  "appendMessage P r text html s =
     (case r of
        Assistant \<Rightarrow>
          (case renderAssistantMessage P text html of
             None \<Rightarrow> None
           | Some bubble \<Rightarrow> Some (append_node (Message Assistant (Bubble bubble)) s))
      | User \<Rightarrow>
          Some (append_node (Message User (if html then InnerHTML text else TextContent text)) s))"

text \<open>\<open>appendMessage\<close> of the build without the renderer: the text is set as it is.\<close>

definition appendMessage_part000 :: "role \<Rightarrow> jsval \<Rightarrow> bool \<Rightarrow> session \<Rightarrow> session" where
  "appendMessage_part000 r text html s =
     append_node (Message r (if html then InnerHTML text else TextContent text)) s"

fun remove_first_chips :: "node list \<Rightarrow> node list" where
  "remove_first_chips [] = []"
| "remove_first_chips (ChipsNode cs # ns) = ns"
| "remove_first_chips (n # ns) = n # remove_first_chips ns"

definition renderSuggestions :: "jsstring list \<Rightarrow> session \<Rightarrow> session" where
  "renderSuggestions chips s =
     (let s1 = s\<lparr> chatBody := remove_first_chips (chatBody s) \<rparr>
      in if chips = [] then s1 else append_node (ChipsNode chips) s1)"

definition openChat :: "session \<Rightarrow> session" where
  "openChat s =
     (let s1 = s\<lparr> chatWidget_open := True \<rparr>
      in if length (chatBody s1) \<le> 1
         then renderSuggestions [str ''Find a home'', str ''Sell my property'',
                                 str ''Speak to agent''] s1
         else s1)"

definition openChat_part000 :: "session \<Rightarrow> session" where
  "openChat_part000 s = s\<lparr> chatWidget_open := True \<rparr>"

definition closeChat :: "session \<Rightarrow> session" where
  "closeChat s = s\<lparr> chatWidget_open := False \<rparr>"

text \<open>
  \<open>showTyping(show, userText)\<close> of \<open>app.js\<close>. The bubble is created on first use, hidden and
  reading "Thinking..."; showing it removes the suggestion chips, sets the text and moves
  the bubble to the end of \<open>chatBody\<close>. The text is \<open>getTypingFlavor(userText)\<close>, a phrase
  picked with \<open>Math.random()\<close> among those of the category the message's keywords select;
  the phrase picked is the argument \<open>flavor\<close> here.
\<close>

definition showTyping :: "bool \<Rightarrow> jsstring \<Rightarrow> session \<Rightarrow> session" where
  "showTyping show flavor s =
     (let s1 = (if typingBubble s = None
                then (append_node TypingNode s)
                       \<lparr> typingBubble := Some (True, JStr (str ''Thinking...'')) \<rparr>
                else s);
          s2 = (if show then s1\<lparr> chatBody := remove_first_chips (chatBody s1) \<rparr> else s1)
      in if show
         then s2\<lparr> typingBubble := Some (False, JStr flavor),
                  chatBody := removeAll TypingNode (chatBody s2) @ [TypingNode] \<rparr>
         else s2\<lparr> typingBubble := map_option (\<lambda>(hidden, txt). (True, txt)) (typingBubble s2) \<rparr>)"

definition showTyping_part000 :: "bool \<Rightarrow> session \<Rightarrow> session" where
  "showTyping_part000 show s = s\<lparr> typingIndicator_hidden := (\<not> show) \<rparr>"

definition endChatSession :: "session \<Rightarrow> session" where
  "endChatSession s =
     s\<lparr> chatEnded := True, chatInput_value := [], chatInput_disabled := True,
        sendButton_disabled := True, chatInputArea_hidden := True,
        ratingComponent_hidden := False \<rparr>"

definition handleRating :: "jsstring \<Rightarrow> session \<Rightarrow> session" where
  "handleRating v s =
     s\<lparr> sessionRating := Some v, ratingThankYou_hidden := False, ratingInputs_disabled := True \<rparr>"

text \<open>
  The dispatch on a parsed event inside the \<open>try\<close> of the line loop, with the state each
  exception leaves behind: \<open>event.type\<close> on \<open>null\<close> and \<open>data.conversation_id\<close> on a missing
  \<open>data\<close> throw before anything is done; \<open>appendMessage\<close> throws after
  \<open>saveConversation\<close> has run. A status event sets the text of the typing bubble; an
  error event is only logged.
\<close>

definition handleEvent :: "platform \<Rightarrow> jsval \<Rightarrow> session \<Rightarrow> session" where
  "handleEvent P event s =
     (if nullish event then s
      else if is_lit (get event ''type'') ''status'' then
        (case typingBubble s of
           None \<Rightarrow> s
         | Some (hidden, txt) \<Rightarrow> s\<lparr> typingBubble := Some (hidden, get event ''message'') \<rparr>)
      else if is_lit (get event ''type'') ''result'' then
        (let data = get event ''data'' in
         if nullish data then s
         else
           let s1 = saveConversation (get data ''conversation_id'') s in
           case appendMessage P Assistant (get data ''reply'') False s1 of
             None \<Rightarrow> s1
           | Some s2 \<Rightarrow>
               let s3 = handleRouting (get data ''routing'') (get data ''profile'') s2
               in if truthy (get data ''lead_captured'')
                  then s3\<lparr> endTimers := endTimers s3 + 1 \<rparr>
                  else s3)
      else s)"

text \<open>
  What the network does with a chat request. \<open>app.js\<close> reads the body as a stream:
  \<open>fetch\<close> rejects, or answers with \<open>response.ok\<close> and the chunks that \<open>reader.read()\<close>
  delivers, after which the stream is done or a read rejects. The other build reads
  \<open>response.json()\<close>, which gives a value or rejects (\<open>None\<close>).
\<close>

datatype stream_end = StreamDone | StreamError

datatype fetch_result = FetchFailed | Response bool "byte list list" stream_end

datatype fetch_json = JsonFetchFailed | JsonResponse bool "jsval option"

definition apology :: jsstring where
  "apology = str ''The backend is unavailable right now. Sorry for the inconvenience!''"

text \<open>The \<open>catch\<close> block of \<open>sendMessage\<close>. The apology is a string, so the call returns.\<close>

definition send_failed :: "platform \<Rightarrow> session \<Rightarrow> session" where
  "send_failed P s =
     (case appendMessage P Assistant (JStr apology) False s of None \<Rightarrow> s | Some s' \<Rightarrow> s')"

text \<open>
  \<open>sendMessage\<close> of \<open>app.js\<close>, run from the call to the end of its \<open>finally\<close> block with
  nothing else in between.
\<close>

definition sendMessage :: "platform \<Rightarrow> config \<Rightarrow> jsstring \<Rightarrow> fetch_result \<Rightarrow> session \<Rightarrow> session" where
  "sendMessage P C flavor net s =
     (if chatEnded s then s
      else
        let message = trim (chatInput_value s) in
        if message = [] then s
        else
          case appendMessage P User (JStr message) False s of
            None \<Rightarrow> s
          | Some s1 \<Rightarrow>
              let s2 = s1\<lparr> chatInput_value := [] \<rparr>;
                  s3 = showTyping True flavor s2;
                  s4 = s3\<lparr> requests := requests s3 @
                         [ChatRequest [(''conversation_id'', conversationId s3),
                                       (''message'', JStr message),
                                       (''sheet_id'', if SHEETS_ID C = [] then JUndefined
                                                      else JStr (SHEETS_ID C))]] \<rparr>;
                  s5 = (case net of
                          FetchFailed \<Rightarrow> send_failed P s4
                        | Response ok chunks fin \<Rightarrow>
                            if \<not> ok then send_failed P s4
                            else
                              let s' = snd (snd (read_loop P (handleEvent P) chunks
                                                   (new_TextDecoder, [], s4)))
                              in (case fin of
                                    StreamDone \<Rightarrow> s'
                                  | StreamError \<Rightarrow> send_failed P s'))
              in showTyping False [] s5)"

text \<open>\<open>sendMessage\<close> of the build that reads the reply as one JSON value.\<close>

definition sendMessage_part000 :: "config \<Rightarrow> fetch_json \<Rightarrow> session \<Rightarrow> session" where
  "sendMessage_part000 C net s =
     (if chatEnded s then s
      else if BUSINESS_ID C = [] then
        appendMessage_part000 Assistant
          (JStr (str ''Chat is not configured yet. Please set RM_BUSINESS_ID.'')) False s
      else
        let message = trim (chatInput_value s) in
        if message = [] then s
        else
          let s1 = appendMessage_part000 User (JStr message) False s;
              s2 = s1\<lparr> chatInput_value := [] \<rparr>;
              s3 = showTyping_part000 True s2;
              s4 = s3\<lparr> requests := requests s3 @
                     [ChatRequest [(''business_id'', JStr (BUSINESS_ID C)),
                                   (''conversation_id'', conversationId s3),
                                   (''message'', JStr message),
                                   (''sheet_id'', if SHEETS_ID C = [] then JUndefined
                                                  else JStr (SHEETS_ID C))]] \<rparr>;
              failed = appendMessage_part000 Assistant (JStr apology) False s4;
              s5 = (case net of
                      JsonFetchFailed \<Rightarrow> failed
                    | JsonResponse ok body \<Rightarrow>
                        if \<not> ok then failed
                        else (case body of
                                None \<Rightarrow> failed
                              | Some data \<Rightarrow>
                                  if nullish data then failed
                                  else
                                    let a = saveConversation (get data ''conversation_id'') s4;
                                        b = appendMessage_part000 Assistant (get data ''reply'') False a;
                                        c = handleRouting (get data ''routing'') (get data ''profile'') b
                                    in if truthy (get data ''lead_captured'')
                                       then c\<lparr> endTimers := endTimers c + 1 \<rparr>
                                       else c))
          in showTyping_part000 False s5)"

text \<open>
  \<open>resetChat\<close>: the same statements in both builds, ending in the build's \<open>openChat\<close>.
  \<open>latestProfile\<close>, the input's text and the typing bubble are not touched.
\<close>

definition reset_fields :: "id_source \<Rightarrow> session \<Rightarrow> session" where
  "reset_fields src s =
     saveConversation (makeConversationId src)
       (s\<lparr> chatBody := [], leadFormVisible := False, leadSubmitted := False,
           pendingLeadMeta := None, sessionRating := None, chatEnded := False,
           ratingComponent_hidden := True, chatInputArea_hidden := False,
           chatInput_disabled := False, sendButton_disabled := False,
           ratingThankYou_hidden := True, ratingInputs_disabled := False \<rparr>)"

definition resetChat :: "id_source \<Rightarrow> session \<Rightarrow> session" where
  "resetChat src s = openChat (reset_fields src s)"

definition resetChat_part000 :: "id_source \<Rightarrow> session \<Rightarrow> session" where
  "resetChat_part000 src s = openChat_part000 (reset_fields src s)"

text \<open>The click handler of \<open>specialistBtn\<close>.\<close>

definition specialist_click :: "session \<Rightarrow> session" where
  "specialist_click s =
     renderLeadForm
       (JObj [(str ''intent'', JStr (str ''book'')),
              (str ''summary'',
                 JStr (str ''To hold a consultation slot we just need your preferred contact.'')),
              (str ''urgency'', JStr (str ''soon''))])
       True JUndefined (openChat s)"

text \<open>
  The \<open>onclick\<close> of a suggestion chip:
  \<open>chatInput.value = text; sendMessage(); wrapper.remove()\<close>.
\<close>

definition chip_click ::
  "platform \<Rightarrow> config \<Rightarrow> jsstring \<Rightarrow> jsstring \<Rightarrow> fetch_result \<Rightarrow> session \<Rightarrow> session" where
  "chip_click P C text flavor net s =
     (let s1 = sendMessage P C flavor net (s\<lparr> chatInput_value := text \<rparr>)
      in s1\<lparr> chatBody := remove_first_chips (chatBody s1) \<rparr>)"

text \<open>
  \<open>handleLeadSubmit\<close>, with the values of the form's fields and whether the backend
  accepted the lead (\<open>fetch\<close> resolved and \<open>res.ok\<close>). The \<open>alert\<close> dialogs leave no trace
  in the state. Code unit 8212 is the dash of the confirmation, 9989 the check mark of the
  toast.
\<close>

record lead_fields =
  field_name :: jsstring
  field_email :: jsstring
  field_phone :: jsstring
  field_contact_method :: jsstring
  field_preferred_time :: jsstring

definition handleLeadSubmit :: "config \<Rightarrow> lead_fields \<Rightarrow> bool \<Rightarrow> session \<Rightarrow> session" where
  "handleLeadSubmit C form accepted s =
     (if BUSINESS_ID C = [] then
        appendMessage_part000 Assistant
          (JStr (str ''Chat is not configured yet. Please set RM_BUSINESS_ID.'')) False s
      else
        let name = trim (field_name form);
            email = trim (field_email form);
            phone = trim (field_phone form);
            contactMethod = (if field_contact_method form = [] then str ''email''
                             else field_contact_method form);
            preferredTime = trim (field_preferred_time form)
        in if name = [] then s
           else if email = [] \<and> phone = [] then s
           else
             let meta = (\<lambda>sel. case pendingLeadMeta s of None \<Rightarrow> JUndefined | Some m \<Rightarrow> sel m);
                 payload =
                   [(''business_id'', JStr (BUSINESS_ID C)),
                    (''conversation_id'', conversationId s),
                    (''name'', JStr name),
                    (''email'', JStr email),
                    (''phone'', JStr phone),
                    (''contact_method'', JStr contactMethod),
                    (''preferred_time'', JStr preferredTime),
                    (''intent'', jor (meta meta_intent) (JStr (str ''other''))),
                    (''urgency'', jor (meta meta_urgency) (JStr (str ''unknown''))),
                    (''summary'', jor (meta meta_summary) (JStr (str ''Visitor needs follow up'')))]
                   @ (if SHEETS_ID C = [] then [] else [(''sheet_id'', JStr (SHEETS_ID C))]);
                 s1 = s\<lparr> requests := requests s @ [LeadRequest payload] \<rparr>
             in if \<not> accepted then s1
                else
                  let s2 = s1\<lparr> chatBody := remove_first_form (chatBody s1),
                               leadFormVisible := False, leadSubmitted := True,
                               pendingLeadMeta := None \<rparr>;
                      s3 = appendMessage_part000 Assistant
                             (JStr (str ''Thank you '' @ [8212]
                                    @ str '' a stylist will reach out shortly. <a href='' @ [34]
                                    @ str ''#contact'' @ [34] @ str '' target='' @ [34]
                                    @ str ''_blank'' @ [34] @ str ''>Book consultation</a>''))
                             True s2
                  in s3\<lparr> leadToast := Some (str ''Lead captured '' @ [9989]) \<rparr>)"

text \<open>
  What can happen to the widget: the visitor types, sends, clicks, rates; the timer set
  by a \<open>lead_captured\<close> result fires. Each action carries what the browser and the
  network contribute to it.
\<close>

datatype action =
    TypeText jsstring
  | Send jsstring fetch_result
  | Send_part000 fetch_json
  | ChipClick jsstring jsstring fetch_result
  | Reset id_source
  | Reset_part000 id_source
  | Dismiss
  | Specialist
  | LeadSubmit lead_fields bool
  | Rate jsstring
  | EndTimer
  | OpenChat
  | CloseChat

fun step :: "platform \<Rightarrow> config \<Rightarrow> action \<Rightarrow> session \<Rightarrow> session" where
  "step P C (TypeText t) s = s\<lparr> chatInput_value := t \<rparr>"
| "step P C (Send flavor net) s = sendMessage P C flavor net s"
| "step P C (Send_part000 net) s = sendMessage_part000 C net s"
| "step P C (ChipClick text flavor net) s = chip_click P C text flavor net s"
| "step P C (Reset src) s = resetChat src s"
| "step P C (Reset_part000 src) s = resetChat_part000 src s"
| "step P C Dismiss s = leadDismiss s"
| "step P C Specialist s = specialist_click s"
| "step P C (LeadSubmit form accepted) s = handleLeadSubmit C form accepted s"
| "step P C (Rate v) s = handleRating v s"
| "step P C EndTimer s =
     (if endTimers s = 0 then s else endChatSession (s\<lparr> endTimers := endTimers s - 1 \<rparr>))"
| "step P C OpenChat s = openChat s"
| "step P C CloseChat s = closeChat s"


section \<open>Example inputs\<close>

definition session0 :: session where
  "session0 = initial_session (MathRandom (str ''0.4fzyo82mvyr''))"

definition routing_yes :: jsval where
  "routing_yes = JObj [(str ''lead_capture'', JStr (str ''yes'')), (str ''intent'', JStr (str ''book''))]"

definition profile_contact :: jsval where
  "profile_contact = JObj [(str ''stage'', JStr (str ''contact'')),
                           (str ''contact_email'', JStr (str ''a@b.c'')),
                           (str ''product_name'', JStr (str ''Sofa''))]"

definition profile_product :: jsval where
  "profile_product = JObj [(str ''product_name'', JStr (str ''Sofa''))]"


text \<open>
  An excerpt of \<open>JSON.parse\<close> for the examples: its value on each well-formed line that
  the examples use. On every other line the excerpt answers \<open>None\<close>, which is what
  \<open>JSON.parse\<close> does for the malformed line \<open>oops\<close> of the examples. Code unit 233 is the
  letter e with an acute accent.
\<close>

definition line_status :: jsstring where
  \<open>line_status = str ''{"type":"status","message":"caf'' @ [233] @ str ''"}''\<close>

definition event_status :: jsval where
  "event_status = JObj [(str ''type'', JStr (str ''status'')),
                        (str ''message'', JStr (str ''caf'' @ [233]))]"

definition line_result :: jsstring where
  \<open>line_result = str ''{"type":"result","data":{"conversation_id":"c-2","reply":"Hello"}}''\<close>

definition event_result :: jsval where
  "event_result = JObj [(str ''type'', JStr (str ''result'')),
                        (str ''data'', JObj [(str ''conversation_id'', JStr (str ''c-2'')),
                                             (str ''reply'', JStr (str ''Hello''))])]"

definition line_no_id :: jsstring where
  \<open>line_no_id = str ''{"type":"result","data":{"reply":"Hello"}}''\<close>

definition event_no_id :: jsval where
  "event_no_id = JObj [(str ''type'', JStr (str ''result'')),
                       (str ''data'', JObj [(str ''reply'', JStr (str ''Hello''))])]"

definition sample_parse :: "jsstring \<Rightarrow> jsval option" where
  "sample_parse line =
     (if line = line_status then Some event_status
      else if line = line_result then Some event_result
      else if line = line_no_id then Some event_no_id
      else None)"

definition browser :: platform where
  "browser = \<lparr> JSON_parse = sample_parse, Number_toLocaleString = en_US_toLocaleString \<rparr>"

definition page :: config where
  "page = \<lparr> BUSINESS_ID = str ''default'', SHEETS_ID = [] \<rparr>"

text \<open>
  A reply stream of three lines, the second one malformed, and the same bytes cut into
  three reads: in the middle of the accented letter (bytes C3 and A9) and in the middle of
  the last line.
\<close>

definition stream_whole :: "byte list" where
  \<open>stream_whole = ascii ''{"type":"status","message":"caf'' @ [0xC3, 0xA9] @ ascii ''"}''
     @ [0x0A] @ ascii ''oops'' @ [0x0A]
     @ ascii ''{"type":"result","data":{"conversation_id":"c-2","reply":"Hello"}}'' @ [0x0A]\<close>

definition stream_reads :: "byte list list" where
  \<open>stream_reads =
     [ascii ''{"type":"status","message":"caf'' @ [0xC3],
      [0xA9] @ ascii ''"}'' @ [0x0A] @ ascii ''oops'' @ [0x0A] @ ascii ''{"type":"result","da'',
      ascii ''ta":{"conversation_id":"c-2","reply":"Hello"}}'' @ [0x0A]]\<close>

text \<open>The same stream without its malformed line.\<close>

definition stream_clean :: "byte list" where
  \<open>stream_clean = ascii ''{"type":"status","message":"caf'' @ [0xC3, 0xA9] @ ascii ''"}''
     @ [0x0A]
     @ ascii ''{"type":"result","data":{"conversation_id":"c-2","reply":"Hello"}}'' @ [0x0A]\<close>


section \<open>Lemmas on the decoder\<close>

lemma split_nl_nonempty: "split_nl s \<noteq> []"
  by (induction s) (auto split: list.splits)

lemma split_nl_append:
  "split_nl (a @ b) = butlast (split_nl a) @ split_nl (last (split_nl a) @ b)"
proof (induction a)
  case Nil
  show ?case by simp
next
  case (Cons c a)
  show ?case
  proof (cases "c = 10")
    case True
    then show ?thesis using Cons split_nl_nonempty[of a] by simp
  next
    case False
    obtain l ls where a: "split_nl a = l # ls"
      using split_nl_nonempty[of a] by (cases "split_nl a") auto
    show ?thesis
    proof (cases ls)
      case Nil
      with a False Cons show ?thesis by simp
    next
      case (Cons l2 ls2)
      with a False Cons.IH show ?thesis by simp
    qed
  qed
qed

lemma last_split_nl_no_newline: "10 \<notin> set (last (split_nl s))"
proof (induction s)
  case Nil
  show ?case by simp
next
  case (Cons c s)
  then show ?case using split_nl_nonempty[of s]
    by (cases "split_nl s") (auto split: if_splits)
qed

lemma split_nl_no_newline: "10 \<notin> set s \<Longrightarrow> split_nl s = [s]"
  by (induction s) auto

lemma decode_append:
  "decode d (a @ b) = (let (d1, t1) = decode d a; (d2, t2) = decode d1 b in (d2, t1 @ t2))"
  by (induction a arbitrary: d) (auto simp: Let_def split: prod.splits)

lemma read_loop_lines:
  assumes "10 \<notin> set buffer"
  shows "read_loop P h chunks (d, buffer, st) =
           (let (d', txt) = decode d (concat chunks);
                lines = split_nl (buffer @ txt)
            in (d', last lines, fold (process_line P h) (butlast lines) st))"
  using assms
proof (induction chunks arbitrary: d buffer st)
  case Nil
  then show ?case by (simp add: split_nl_no_newline)
next
  case (Cons v reads)
  obtain d1 t1 where v: "decode d v = (d1, t1)" by (cases "decode d v")
  obtain d2 t2 where r: "decode d1 (concat reads) = (d2, t2)" by (cases "decode d1 (concat reads)")
  let ?lines = "split_nl (buffer @ t1)"
  have ih: "read_loop P h reads (d1, last ?lines, fold (process_line P h) (butlast ?lines) st)
        = (d2, last (split_nl (last ?lines @ t2)),
             fold (process_line P h) (butlast (split_nl (last ?lines @ t2)))
               (fold (process_line P h) (butlast ?lines) st))"
  proof -
    have nn: "10 \<notin> set (last ?lines)" by (rule last_split_nl_no_newline)
    show ?thesis using Cons.IH[OF nn] r by (simp add: Let_def)
  qed
  have dec: "decode d (concat (v # reads)) = (d2, t1 @ t2)"
    using v r by (simp add: decode_append)
  have sp: "split_nl (buffer @ t1 @ t2) = butlast ?lines @ split_nl (last ?lines @ t2)"
    using split_nl_append[of "buffer @ t1" t2] by simp
  show ?case
    using v ih dec sp split_nl_nonempty[of "last ?lines @ t2"]
    by (simp add: Let_def butlast_append del: concat.simps)
qed

lemma read_loop_state:
  "snd (snd (read_loop P h chunks (new_TextDecoder, [], st)))
     = fold (process_line P h) (stream_lines chunks) st"
  by (simp add: read_loop_lines stream_lines_def stream_text_def Let_def split: prod.splits)

lemma stream_lines_concat: "stream_lines [concat chunks] = stream_lines chunks"
  by (simp add: stream_lines_def stream_text_def)

lemma decoder_events_lines: "decoder_events P chunks = events_of_lines P (stream_lines chunks)"
  by (simp add: decoder_events_def events_of_lines_def read_loop_state)

lemma fold_process_line_events:
  "fold (process_line P (\<lambda>event evs. evs @ [event])) ls acc = acc @ events_of_lines P ls"
proof -
  define f where "f = process_line P (\<lambda>event evs. evs @ [event])"
  have step: "f l acc = acc @ f l []" for l acc
    by (simp add: f_def process_line_def split: option.splits)
  have g: "fold f ls acc = acc @ fold f ls []" for acc
  proof (induction ls arbitrary: acc)
    case Nil
    show ?case by simp
  next
    case (Cons l ls)
    have a: "fold f ls (acc @ f l []) = (acc @ f l []) @ fold f ls []" by (rule Cons.IH)
    have b: "fold f ls (f l []) = f l [] @ fold f ls []" by (rule Cons.IH)
    have "fold f (l # ls) acc = fold f ls (acc @ f l [])"
      by (simp only: fold_simps o_apply step[of l acc])
    moreover have "fold f (l # ls) [] = fold f ls (f l [])"
      by (simp only: fold_simps o_apply)
    ultimately show ?case by (simp only: a b append_assoc)
  qed
  from g[of acc] show ?thesis unfolding f_def events_of_lines_def .
qed

lemma events_of_lines_append:
  "events_of_lines P (xs @ ys) = events_of_lines P xs @ events_of_lines P ys"
proof -
  have "events_of_lines P (xs @ ys)
          = fold (process_line P (\<lambda>event evs. evs @ [event])) ys (events_of_lines P xs)"
    by (simp only: events_of_lines_def fold_append o_apply)
  then show ?thesis by (simp only: fold_process_line_events)
qed

lemma fold_process_line_dispatch:
  "fold (process_line P h) ls st = fold h (events_of_lines P ls) st"
proof (induction ls arbitrary: st)
  case Nil
  show ?case by (simp add: events_of_lines_def)
next
  case (Cons l ls)
  have single: "fold h (events_of_lines P [l]) st = process_line P h l st"
    by (simp add: events_of_lines_def process_line_def split: option.splits)
  have "events_of_lines P (l # ls) = events_of_lines P [l] @ events_of_lines P ls"
    using events_of_lines_append[of P "[l]" ls] by simp
  then have "fold h (events_of_lines P (l # ls)) st
               = fold h (events_of_lines P ls) (process_line P h l st)"
    by (simp only: fold_append o_apply single)
  also have "\<dots> = fold (process_line P h) ls (process_line P h l st)"
    by (rule Cons.IH[symmetric])
  finally show ?case by simp
qed

lemma read_loop_dispatch:
  "snd (snd (read_loop P h chunks (new_TextDecoder, [], st))) = fold h (decoder_events P chunks) st"
  by (simp add: read_loop_state fold_process_line_dispatch decoder_events_lines)


text \<open>Evaluation of the decoder on the example streams.\<close>

lemmas decoder_eval =
  new_TextDecoder_def decode_byte_def utf8_handler_def utf8_lead_def utf16_def Let_def
  ascii_def str_def line_status_def line_result_def line_no_id_def

lemma stream_reads_concat: "concat stream_reads = stream_whole"
  by (simp add: stream_reads_def stream_whole_def ascii_def)

lemma stream_whole_lines: "stream_lines [stream_whole] = [line_status, str ''oops'', line_result]"
  by (simp add: stream_lines_def stream_text_def stream_whole_def decoder_eval)

lemma stream_clean_lines: "stream_lines [stream_clean] = [line_status, line_result]"
  by (simp add: stream_lines_def stream_text_def stream_clean_def decoder_eval)

lemma sample_parse_oops: "JSON_parse browser (str ''oops'') = None"
  by (simp add: browser_def sample_parse_def decoder_eval)

lemma example_events:
  "events_of_lines browser [line_status, str ''oops'', line_result] = [event_status, event_result]"
  by (simp add: events_of_lines_def process_line_def browser_def sample_parse_def trim_def
        is_space_def decoder_eval)


section \<open>Properties of the lead gate\<close>

text \<open>
  C1. Suppression takes precedence: when the form is already visible, or a lead was
  submitted this session, or the profile carries a contact email or phone, \<open>handleRouting\<close>
  does not show the form, whatever the routing signal and the rest of the profile say.
  It does nothing but record the profile: the document, \<open>leadFormVisible\<close> and
  \<open>pendingLeadMeta\<close> stay as they were.
\<close>

theorem lead_gate_suppression:
  assumes "leadFormVisible s \<or> leadSubmitted s
           \<or> truthy (get profile ''contact_email'') \<or> truthy (get profile ''contact_phone'')"
  shows "handleRouting routing profile s
           = (if truthy profile then updateProfilePanel profile s else s)
         \<and> chatBody (handleRouting routing profile s) = chatBody s
         \<and> leadFormVisible (handleRouting routing profile s) = leadFormVisible s
         \<and> pendingLeadMeta (handleRouting routing profile s) = pendingLeadMeta s"
  using assms by (auto simp: handleRouting_def updateProfilePanel_def jor_def Let_def)

theorem lead_gate_suppression_witness:
  "truthy (get profile_contact ''contact_email'')
   \<and> is_lit (get routing_yes ''lead_capture'') ''yes''
   \<and> chatBody (handleRouting routing_yes profile_contact session0) = chatBody session0
   \<and> leadFormVisible (handleRouting routing_yes profile_contact session0) = leadFormVisible session0
   \<and> pendingLeadMeta (handleRouting routing_yes profile_contact session0) = pendingLeadMeta session0"
proof -
  have h: "truthy (get profile_contact ''contact_email'')"
    by (simp add: profile_contact_def str_def)
  have y: "is_lit (get routing_yes ''lead_capture'') ''yes''"
    by (simp add: routing_yes_def is_lit_def str_def)
  from h have "leadFormVisible session0 \<or> leadSubmitted session0
           \<or> truthy (get profile_contact ''contact_email'')
           \<or> truthy (get profile_contact ''contact_phone'')"
    by simp
  from lead_gate_suppression [OF this, of routing_yes] h y show ?thesis
    by blast
qed

section \<open>Properties of the transport decoder\<close>

text \<open>
  C2. Chunking invariance: however the bytes of a reply are cut into reads (in the middle
  of a line or of a UTF-8 character as well), the decoder hands over the same events in
  the same order as for one read holding all the bytes; the decoder state, the buffer and
  the state the dispatch leaves behind are the same too. This holds for every byte
  stream, well-formed or not.
\<close>

theorem decoder_chunking_invariant:
  "decoder_events P chunks = decoder_events P [concat chunks]
   \<and> read_loop P h chunks (new_TextDecoder, [], st)
       = read_loop P h [concat chunks] (new_TextDecoder, [], st)"
  by (simp add: decoder_events_lines stream_lines_concat read_loop_lines del: read_loop.simps)

theorem decoder_chunking_invariant_witness:
  "concat stream_reads = stream_whole
   \<and> decoder_events browser stream_reads = decoder_events browser [stream_whole]
   \<and> decoder_events browser stream_reads = [event_status, event_result]"
proof -
  have "decoder_events browser stream_reads = decoder_events browser [concat stream_reads]"
    using decoder_chunking_invariant[of browser stream_reads] by (rule conjunct1)
  moreover have "decoder_events browser [stream_whole] = [event_status, event_result]"
    by (simp only: decoder_events_lines stream_whole_lines example_events)
  ultimately show ?thesis
    by (simp only: stream_reads_concat simp_thms)
qed

text \<open>
  C3. Decode-failure isolation: a complete line that \<open>JSON.parse\<close> rejects gives no event,
  and the events of the lines before and after it are what they are without it. The
  events of the stream are those of the lines before followed by those of the lines after;
  they equal the events of any stream with the same lines less the rejected one, and so
  does the state that the dispatch leaves behind.
\<close>

theorem invalid_line_isolated:
  assumes "stream_lines chunks = pre @ l # post"
    and "JSON_parse P l = None"
    and "stream_lines chunks' = pre @ post"
  shows "decoder_events P chunks = events_of_lines P pre @ events_of_lines P post
         \<and> decoder_events P chunks = decoder_events P chunks'
         \<and> snd (snd (read_loop P h chunks (new_TextDecoder, [], st)))
             = snd (snd (read_loop P h chunks' (new_TextDecoder, [], st)))"
proof -
  have bad: "events_of_lines P [l] = []"
    using assms(2) by (simp add: events_of_lines_def process_line_def)
  have "events_of_lines P (pre @ [l] @ post) = events_of_lines P pre @ events_of_lines P post"
    by (simp only: events_of_lines_append bad append_Nil)
  then have 1: "decoder_events P chunks = events_of_lines P pre @ events_of_lines P post"
    using assms(1) by (simp add: decoder_events_lines)
  have 2: "decoder_events P chunks = decoder_events P chunks'"
    using 1 assms(3) by (simp add: decoder_events_lines events_of_lines_append)
  have 3: "snd (snd (read_loop P h chunks (new_TextDecoder, [], st)))
             = snd (snd (read_loop P h chunks' (new_TextDecoder, [], st)))"
    using 2 by (simp add: read_loop_dispatch)
  from 1 2 3 show ?thesis by blast
qed

theorem invalid_line_isolated_witness:
  "stream_lines [stream_whole] = [line_status] @ str ''oops'' # [line_result]
   \<and> JSON_parse browser (str ''oops'') = None
   \<and> stream_lines [stream_clean] = [line_status] @ [line_result]
   \<and> decoder_events browser [stream_whole] = decoder_events browser [stream_clean]"
proof -
  have a: "stream_lines [stream_whole] = [line_status] @ str ''oops'' # [line_result]"
    by (simp only: stream_whole_lines append_Cons append_Nil)
  have c: "stream_lines [stream_clean] = [line_status] @ [line_result]"
    by (simp only: stream_clean_lines append_Cons append_Nil)
  have "decoder_events browser [stream_whole] = decoder_events browser [stream_clean]"
    by (rule invalid_line_isolated[OF a sample_parse_oops c, THEN conjunct2, THEN conjunct1])
  with a c sample_parse_oops show ?thesis
    by (intro conjI)
qed

end
